theory Spec2Isabelle
  imports Complex_Main
begin

section \<open>The application store: bounded probability history\<close>

text \<open>
  \<^verbatim>\<open>frontend/src/store/useAppStore.ts\<close>. The numbers the store keeps are
  modelled as real numbers: it stores them and never computes with them. The store is a
  record; every action takes the store and returns the updated one.
\<close>

datatype ConnectionStatus = Connected | Disconnected | Connecting

datatype Page = Dashboard_page | Analytics_page | Settings_page

record GameState =
  gs_type :: string
  match_id :: "string option"
  is_verified :: bool
  game_time :: "real option"
  gold_diff :: real
  xp_diff :: real
  networth_velocity :: real
  model_win_probability :: real
  market_implied_probability :: real
  market_odds_radiant :: real
  mispricing_index :: real
  draft_radiant_score :: real
  series_score_diff :: real
  is_mock_odds :: bool

record ProbabilityPoint =
  time :: real
  model :: real
  market :: real

record AppState =
  connectionStatus :: ConnectionStatus
  gameState :: "GameState option"
  probabilityHistory :: "ProbabilityPoint list"
  currentPage :: Page

definition MAX_HISTORY_POINTS :: nat where
  "MAX_HISTORY_POINTS = 60"

text \<open>The store as \<^verbatim>\<open>create\<close> builds it.\<close>

definition initialAppState :: AppState where
  "initialAppState =
     \<lparr>connectionStatus = Connecting, gameState = None,
      probabilityHistory = [], currentPage = Dashboard_page\<rparr>"

text \<open>
  \<^verbatim>\<open>xs.slice(-k)\<close>: the elements from index \<open>max (length xs - k) 0\<close> to the end.
\<close>

definition slice_from_end :: "nat \<Rightarrow> 'a list \<Rightarrow> 'a list" where
  "slice_from_end k xs = drop (length xs - k) xs"

definition addProbabilityPoint :: "real \<Rightarrow> real \<Rightarrow> real \<Rightarrow> AppState \<Rightarrow> AppState" where
  "addProbabilityPoint t m k state =
     (let newPoint = \<lparr>time = t, model = m, market = k\<rparr>;
          newHistory = probabilityHistory state @ [newPoint]
      in if length newHistory > MAX_HISTORY_POINTS
         then state\<lparr>probabilityHistory := slice_from_end MAX_HISTORY_POINTS newHistory\<rparr>
         else state\<lparr>probabilityHistory := newHistory\<rparr>)"

definition updateGameState :: "GameState \<Rightarrow> AppState \<Rightarrow> AppState" where
  "updateGameState gs state =
     (let state1 = state\<lparr>gameState := Some gs\<rparr>
      in case game_time gs of
           None \<Rightarrow> state1
         | Some t \<Rightarrow>
             addProbabilityPoint t (model_win_probability gs) (market_implied_probability gs) state1)"

text \<open>Appending a sequence of points, in arrival order.\<close>

definition addPoint :: "AppState \<Rightarrow> ProbabilityPoint \<Rightarrow> AppState" where
  "addPoint state p = addProbabilityPoint (time p) (model p) (market p) state"

definition addPoints :: "AppState \<Rightarrow> ProbabilityPoint list \<Rightarrow> AppState" where
  "addPoints state ps = foldl addPoint state ps"

section \<open>JavaScript numbers\<close>

text \<open>
  A JavaScript number is an IEEE 754 binary64 value: a real number on the binary64
  grid, an infinity, or NaN. Where the code only compares, clamps or stores numbers they
  are modelled as reals. Where it multiplies or subtracts, the operation computes the
  exact result and rounds it to the nearest binary64 number, a tie going to the even
  significand; \<open>round64\<close> is that rounding. The sign of a zero is not told apart.
\<close>

datatype jsnum = Num real | PosInfinity | NegInfinity | NaN

definition pow2 :: "int \<Rightarrow> real" where
  "pow2 e = (if e \<ge> 0 then 2 ^ nat e else 1 / 2 ^ nat (- e))"

text \<open>
  The binary exponent of a magnitude: \<open>e\<close> with \<open>2\<^sup>e \<le> x < 2\<^sup>e\<^sup>+\<^sup>1\<close>, found by halving
  or doubling. The fuel of 1100 steps reaches every exponent from -1100 to 1100; below
  -1022 the exponent of binary64 stays at -1022 (the subnormal numbers), and a
  magnitude from \<open>2\<^sup>1\<^sup>0\<^sup>2\<^sup>4\<close> on is beyond the finite numbers whatever its exponent.
\<close>

fun binade_fuel :: "nat \<Rightarrow> real \<Rightarrow> int" where
  "binade_fuel 0 x = 0"
| "binade_fuel (Suc n) x =
     (if 2 \<le> x then binade_fuel n (x / 2) + 1
      else if x < 1 then binade_fuel n (x * 2) - 1
      else 0)"

definition binade :: "real \<Rightarrow> int" where
  "binade x = max (- 1022) (binade_fuel 1100 \<bar>x\<bar>)"

text \<open>The nearest integer, a tie going to the even one.\<close>

definition round_half_even :: "real \<Rightarrow> int" where
  "round_half_even t =
     (let f = \<lfloor>t\<rfloor>; d = t - of_int f
      in if d < 1 / 2 then f
         else if d > 1 / 2 then f + 1
         else if even f then f else f + 1)"

text \<open>
  Rounding to binary64: the numbers with exponent \<open>e\<close> are the multiples of
  \<open>2\<^sup>e\<^sup>-\<^sup>5\<^sup>2\<close>; a result of magnitude \<open>2\<^sup>1\<^sup>0\<^sup>2\<^sup>4\<close> or more is an infinity.
\<close>

definition round64 :: "real \<Rightarrow> jsnum" where
  "round64 x =
     (let u = pow2 (binade x - 52);
          r = of_int (round_half_even (x / u)) * u
      in if r \<ge> 2 ^ 1024 then PosInfinity
         else if r \<le> - (2 ^ 1024) then NegInfinity
         else Num r)"

text \<open>\<^verbatim>\<open>x * y\<close>\<close>

fun js_mul :: "jsnum \<Rightarrow> jsnum \<Rightarrow> jsnum" where
  "js_mul (Num a) (Num b) = round64 (a * b)"
| "js_mul NaN y = NaN"
| "js_mul x NaN = NaN"
| "js_mul (Num a) PosInfinity = (if a = 0 then NaN else if 0 < a then PosInfinity else NegInfinity)"
| "js_mul (Num a) NegInfinity = (if a = 0 then NaN else if 0 < a then NegInfinity else PosInfinity)"
| "js_mul PosInfinity (Num b) = (if b = 0 then NaN else if 0 < b then PosInfinity else NegInfinity)"
| "js_mul NegInfinity (Num b) = (if b = 0 then NaN else if 0 < b then NegInfinity else PosInfinity)"
| "js_mul PosInfinity PosInfinity = PosInfinity"
| "js_mul PosInfinity NegInfinity = NegInfinity"
| "js_mul NegInfinity PosInfinity = NegInfinity"
| "js_mul NegInfinity NegInfinity = PosInfinity"

text \<open>\<^verbatim>\<open>x - y\<close>\<close>

fun js_sub :: "jsnum \<Rightarrow> jsnum \<Rightarrow> jsnum" where
  "js_sub (Num a) (Num b) = round64 (a - b)"
| "js_sub NaN y = NaN"
| "js_sub x NaN = NaN"
| "js_sub (Num a) PosInfinity = NegInfinity"
| "js_sub (Num a) NegInfinity = PosInfinity"
| "js_sub PosInfinity (Num b) = PosInfinity"
| "js_sub NegInfinity (Num b) = NegInfinity"
| "js_sub PosInfinity PosInfinity = NaN"
| "js_sub PosInfinity NegInfinity = PosInfinity"
| "js_sub NegInfinity PosInfinity = NegInfinity"
| "js_sub NegInfinity NegInfinity = NaN"


text \<open>
  \<^verbatim>\<open>x.toFixed(1)\<close>: for a finite number of magnitude below \<open>10\<^sup>2\<^sup>1\<close> the string
  shows \<open>n / 10\<close> with one decimal, where \<open>n\<close> is the integer nearest to ten times
  the magnitude (taken exactly), the larger one on a tie, after a minus sign when the
  number is negative; \<open>Fixed neg n\<close> stands for that string. Any other number is
  printed as \<^verbatim>\<open>String(x)\<close> prints it: \<open>Plain x\<close>.
\<close>

datatype fixed = Fixed bool int | Plain jsnum

fun toFixed1 :: "jsnum \<Rightarrow> fixed" where
  "toFixed1 (Num x) =
     (if \<bar>x\<bar> \<ge> 10 ^ 21 then Plain (Num x)
      else Fixed (x < 0) \<lfloor>\<bar>x\<bar> * 10 + 1 / 2\<rfloor>)"
| "toFixed1 PosInfinity = Plain PosInfinity"
| "toFixed1 NegInfinity = Plain NegInfinity"
| "toFixed1 NaN = Plain NaN"

section \<open>The mispricing gauge\<close>

text \<open>
  \<^verbatim>\<open>frontend/src/components/MispricingGauge.tsx\<close>. The component receives the
  mispricing index (model probability minus market probability) as its \<^verbatim>\<open>mispricing\<close>
  prop. Everything it shows is computed from \<^verbatim>\<open>clampedValue\<close>.
\<close>

definition clampedValue :: "real \<Rightarrow> real" where
  "clampedValue mispricing = max (-1) (min 1 mispricing)"


definition isPositive :: "real \<Rightarrow> bool" where
  "isPositive mispricing = (clampedValue mispricing \<ge> 0)"


definition isHighlySignificant :: "real \<Rightarrow> bool" where
  "isHighlySignificant mispricing = (\<bar>clampedValue mispricing\<bar> \<ge> 0.2)"

definition getLabel :: "real \<Rightarrow> string" where
  "getLabel mispricing =
     (if \<bar>clampedValue mispricing\<bar> < 0.05 then ''Fairly Priced''
      else if isPositive mispricing
        then (if isHighlySignificant mispricing then ''Strong Buy Signal'' else ''Undervalued'')
        else (if isHighlySignificant mispricing then ''Strong Sell Signal'' else ''Overvalued''))"






text \<open>
  The tiering of the specification, with the two thresholds as parameters, written in the
  labels of the gauge: below \<open>skip\<close> the index is fairly priced (SKIP), from \<open>strong\<close>
  on it is a strong signal (STRONG), in between it leans (LEAN); the side is the sign
  of the index.
\<close>

definition configured_label :: "real \<Rightarrow> real \<Rightarrow> real \<Rightarrow> string" where
  "configured_label skip strong index =
     (if \<bar>index\<bar> < skip then ''Fairly Priced''
      else if \<bar>index\<bar> \<ge> strong
        then (if index \<ge> 0 then ''Strong Buy Signal'' else ''Strong Sell Signal'')
        else (if index \<ge> 0 then ''Undervalued'' else ''Overvalued''))"

section \<open>The bet signal of the match pages\<close>

text \<open>
  \<^verbatim>\<open>getBetSignal\<close> of the match detail page and of
  \<^verbatim>\<open>frontend/src/components/FeaturedMatch.tsx\<close>. \<^verbatim>\<open>Math.round\<close> rounds to the
  nearest integer, a tie towards plus infinity. The icon of the signal is left out.
\<close>

definition Math_round :: "real \<Rightarrow> int" where
  "Math_round x = \<lfloor>x + 1 / 2\<rfloor>"

record BetSignal =
  sig_text :: string
  sig_color :: string
  sig_safe :: bool

definition getBetSignal :: "real \<Rightarrow> real \<Rightarrow> BetSignal" where
  "getBetSignal radiant_win_prob dire_win_prob =
     (let radiantProb = Math_round (radiant_win_prob * 100);
          direProb = Math_round (dire_win_prob * 100)
      in if radiantProb \<ge> 65
           then \<lparr>sig_text = ''STRONG VALUE - RADIANT'', sig_color = ''emerald'', sig_safe = True\<rparr>
         else if direProb \<ge> 65
           then \<lparr>sig_text = ''STRONG VALUE - DIRE'', sig_color = ''emerald'', sig_safe = True\<rparr>
         else if radiantProb \<ge> 55
           then \<lparr>sig_text = ''LEAN RADIANT'', sig_color = ''amber'', sig_safe = False\<rparr>
         else if direProb \<ge> 55
           then \<lparr>sig_text = ''LEAN DIRE'', sig_color = ''amber'', sig_safe = False\<rparr>
         else \<lparr>sig_text = ''CLOSE MATCH - SKIP'', sig_color = ''stone'', sig_safe = False\<rparr>)"

record FeaturedSignal =
  fs_text :: string
  fs_color :: string
  fs_side :: string

definition featured_getBetSignal :: "real \<Rightarrow> real \<Rightarrow> FeaturedSignal" where
  "featured_getBetSignal radiant_win_prob dire_win_prob =
     (let radiantProb = Math_round (radiant_win_prob * 100);
          direProb = Math_round (dire_win_prob * 100)
      in if radiantProb \<ge> 65
           then \<lparr>fs_text = ''RADIANT VALUE'', fs_color = ''emerald'', fs_side = ''radiant''\<rparr>
         else if direProb \<ge> 65
           then \<lparr>fs_text = ''DIRE VALUE'', fs_color = ''emerald'', fs_side = ''dire''\<rparr>
         else if radiantProb \<ge> 55
           then \<lparr>fs_text = ''LEAN RADIANT'', fs_color = ''amber'', fs_side = ''radiant''\<rparr>
         else if direProb \<ge> 55
           then \<lparr>fs_text = ''LEAN DIRE'', fs_color = ''amber'', fs_side = ''dire''\<rparr>
         else \<lparr>fs_text = ''CLOSE MATCH'', fs_color = ''stone'', fs_side = ''none''\<rparr>)"

section \<open>JavaScript values and the WebSocket handlers\<close>

text \<open>
  What \<^verbatim>\<open>JSON.parse\<close> returns is a value of this type; \<open>JUndefined\<close> is what reading
  a missing property gives. An object is the list of its entries, read by key.
\<close>

datatype jsval =
    JUndefined
  | JNull
  | JBool bool
  | JNum real
  | JStr string
  | JArr "jsval list"
  | JObj "(string \<times> jsval) list"

datatype js_error = SyntaxError | TypeError

text \<open>
  The outcome of a block of statements: it ran to its end, or it threw; both carry the
  state at that moment, since a \<^verbatim>\<open>catch\<close> does not undo what ran before the throw.
\<close>

datatype 's outcome = Done 's | Threw js_error 's

text \<open>
  The properties the handlers read (\<^verbatim>\<open>type\<close>, \<^verbatim>\<open>win_probability\<close>, \<^verbatim>\<open>timestamp\<close>,
  \<^verbatim>\<open>model_win_probability\<close>) exist on objects that carry them only: any other value
  has none of them.
\<close>

fun own_prop :: "jsval \<Rightarrow> string \<Rightarrow> jsval" where
  "own_prop (JObj kvs) k = (case map_of kvs k of None \<Rightarrow> JUndefined | Some v \<Rightarrow> v)"
| "own_prop _ k = JUndefined"

text \<open>\<^verbatim>\<open>v.k\<close>: reading a property of \<^verbatim>\<open>null\<close> or \<^verbatim>\<open>undefined\<close> throws a TypeError.\<close>

definition get_prop :: "jsval \<Rightarrow> string \<Rightarrow> js_error + jsval" where
  "get_prop v k = (if v = JNull \<or> v = JUndefined then Inl TypeError else Inr (own_prop v k))"

text \<open>\<^verbatim>\<open>v?.k\<close>\<close>

definition opt_prop :: "jsval \<Rightarrow> string \<Rightarrow> jsval" where
  "opt_prop v k = (if v = JNull \<or> v = JUndefined then JUndefined else own_prop v k)"

text \<open>\<^verbatim>\<open>v ?? d\<close>\<close>

definition nullish :: "jsval \<Rightarrow> jsval \<Rightarrow> jsval" where
  "nullish v d = (if v = JNull \<or> v = JUndefined then d else v)"

text \<open>Reading a property inside a block: a throw ends the block in the state \<open>s\<close>.\<close>

definition reading :: "jsval \<Rightarrow> string \<Rightarrow> 's \<Rightarrow> (jsval \<Rightarrow> 's outcome) \<Rightarrow> 's outcome" where
  "reading v k s f = (case get_prop v k of Inl e \<Rightarrow> Threw e s | Inr x \<Rightarrow> f x)"

subsection \<open>The game store\<close>

text \<open>
  \<^verbatim>\<open>frontend/src/store/useGameStore.js\<close>. \<^verbatim>\<open>Date.now()\<close> is an argument: the
  clock in milliseconds.
\<close>

record GameStore =
  winProbability :: jsval
  gameTime :: jsval
  isConnected :: bool
  lastUpdate :: int

definition useGameStore :: "int \<Rightarrow> GameStore" where
  "useGameStore now =
     \<lparr>winProbability = JNum 0.5, gameTime = JNum 0, isConnected = False, lastUpdate = now\<rparr>"

definition setWinProbability :: "jsval \<Rightarrow> GameStore \<Rightarrow> GameStore" where
  "setWinProbability prob s = s\<lparr>winProbability := prob\<rparr>"

definition setGameTime :: "jsval \<Rightarrow> GameStore \<Rightarrow> GameStore" where
  "setGameTime t s = s\<lparr>gameTime := t\<rparr>"

definition setConnectionStatus :: "bool \<Rightarrow> GameStore \<Rightarrow> GameStore" where
  "setConnectionStatus status s = s\<lparr>isConnected := status\<rparr>"

definition updateLastTimestamp :: "int \<Rightarrow> GameStore \<Rightarrow> GameStore" where
  "updateLastTimestamp now s = s\<lparr>lastUpdate := now\<rparr>"

definition reset :: "GameStore \<Rightarrow> GameStore" where
  "reset s = s\<lparr>winProbability := JNum 0.5, gameTime := JNum 0, isConnected := False\<rparr>"

subsection \<open>The handlers of the socket hook\<close>

text \<open>
  \<^verbatim>\<open>frontend/src/hooks/useWebSocket.js\<close>. \<^verbatim>\<open>JSON.parse\<close> is the argument
  \<open>parse\<close>: it returns a value, or \<open>None\<close> when it throws a SyntaxError. The body of
  the \<^verbatim>\<open>try\<close> is \<open>onmessage_try\<close>; the \<^verbatim>\<open>catch\<close> logs and goes on.
\<close>

definition onopen :: "GameStore \<Rightarrow> GameStore" where
  "onopen s = setConnectionStatus True s"

definition onclose :: "GameStore \<Rightarrow> GameStore" where
  "onclose s = setConnectionStatus False s"

definition onmessage_try :: "(string \<Rightarrow> jsval option) \<Rightarrow> int \<Rightarrow> string \<Rightarrow> GameStore \<Rightarrow> GameStore outcome" where
  "onmessage_try parse now event_data s =
     (case parse event_data of
        None \<Rightarrow> Threw SyntaxError s
      | Some data \<Rightarrow>
          reading data ''type'' s (\<lambda>ty.
            if ty = JStr ''update'' then
              reading data ''win_probability'' s (\<lambda>wp.
                let s1 = setWinProbability wp s in
                reading data ''timestamp'' s1 (\<lambda>ts.
                  let s2 = setGameTime ts s1 in
                  Done (updateLastTimestamp now s2)))
            else Done s))"

definition onmessage :: "(string \<Rightarrow> jsval option) \<Rightarrow> int \<Rightarrow> string \<Rightarrow> GameStore \<Rightarrow> GameStore outcome" where
  "onmessage parse now event_data s =
     (case onmessage_try parse now event_data s of
        Done s' \<Rightarrow> Done s'
      | Threw e s' \<Rightarrow> Done s')"

subsection \<open>The handlers of the spectate page\<close>

text \<open>
  \<^verbatim>\<open>frontend/src/pages/SpectatePage.tsx\<close>: the page keeps the last accepted message
  in \<^verbatim>\<open>prediction\<close> (\<^verbatim>\<open>null\<close> at first) and the connection status in the
  application store.
\<close>

record SpectateState =
  app :: AppState
  prediction :: jsval

definition initialSpectateState :: SpectateState where
  "initialSpectateState = \<lparr>app = initialAppState, prediction = JNull\<rparr>"

definition spectate_setConnectionStatus :: "ConnectionStatus \<Rightarrow> SpectateState \<Rightarrow> SpectateState" where
  "spectate_setConnectionStatus status st = st\<lparr>app := (app st)\<lparr>connectionStatus := status\<rparr>\<rparr>"

definition setPrediction :: "jsval \<Rightarrow> SpectateState \<Rightarrow> SpectateState" where
  "setPrediction data st = st\<lparr>prediction := data\<rparr>"

definition spectate_onmessage_try :: "(string \<Rightarrow> jsval option) \<Rightarrow> string \<Rightarrow> SpectateState \<Rightarrow> SpectateState outcome" where
  "spectate_onmessage_try parse event_data st =
     (case parse event_data of
        None \<Rightarrow> Threw SyntaxError st
      | Some data \<Rightarrow>
          reading data ''type'' st (\<lambda>ty.
            if ty = JStr ''update'' then
              reading data ''model_win_probability'' st (\<lambda>p.
                if p \<noteq> JUndefined then Done (setPrediction data st) else Done st)
            else Done st))"

definition spectate_onmessage :: "(string \<Rightarrow> jsval option) \<Rightarrow> string \<Rightarrow> SpectateState \<Rightarrow> SpectateState outcome" where
  "spectate_onmessage parse event_data st =
     (case spectate_onmessage_try parse event_data st of
        Done st' \<Rightarrow> Done st'
      | Threw e st' \<Rightarrow> Done st')"

text \<open>The two probabilities the page shows.\<close>

definition radiantProb :: "jsval \<Rightarrow> jsval" where
  "radiantProb pred = nullish (opt_prop pred ''model_win_probability'') (JNum 0.5)"

definition direProb :: "real \<Rightarrow> jsnum" where
  "direProb radiant = js_sub (Num 1) (Num radiant)"

subsection \<open>Socket events\<close>

text \<open>
  The events of the socket, in the order the browser delivers them. A message carries
  its text and the clock reading at the moment it is handled. \<^verbatim>\<open>onerror\<close> asks the
  socket to close and changes no state itself; the close arrives as its own event.
\<close>

datatype ws_event = WsOpen | WsMessage string int | WsClose | WsError

definition handle_ws :: "(string \<Rightarrow> jsval option) \<Rightarrow> ws_event \<Rightarrow> GameStore \<Rightarrow> GameStore" where
  "handle_ws parse ev s =
     (case ev of
        WsOpen \<Rightarrow> onopen s
      | WsMessage event_data now \<Rightarrow>
          (case onmessage parse now event_data s of Done s' \<Rightarrow> s' | Threw e s' \<Rightarrow> s')
      | WsClose \<Rightarrow> onclose s
      | WsError \<Rightarrow> s)"

definition run_ws :: "(string \<Rightarrow> jsval option) \<Rightarrow> GameStore \<Rightarrow> ws_event list \<Rightarrow> GameStore" where
  "run_ws parse s evs = foldl (\<lambda>s ev. handle_ws parse ev s) s evs"

text \<open>An update message: a message that parses to a value whose \<^verbatim>\<open>type\<close> is \<^verbatim>\<open>update\<close>.\<close>

definition is_update :: "(string \<Rightarrow> jsval option) \<Rightarrow> ws_event \<Rightarrow> bool" where
  "is_update parse ev =
     (case ev of
        WsMessage event_data now \<Rightarrow>
          (case parse event_data of
             None \<Rightarrow> False
           | Some data \<Rightarrow> get_prop data ''type'' = Inr (JStr ''update''))
      | _ \<Rightarrow> False)"

subsection \<open>The dashboard\<close>

text \<open>
  \<^verbatim>\<open>frontend/src/components/Dashboard.jsx\<close>. The component adds the flag
  \<^verbatim>\<open>isDead\<close> to the game store; the interval callback \<open>deadman\<close> sets it from the
  clock reading \<open>now\<close>.
\<close>

record DashboardState =
  store :: GameStore
  isDead :: bool

definition deadman :: "int \<Rightarrow> DashboardState \<Rightarrow> DashboardState" where
  "deadman now d =
     (if now - lastUpdate (store d) > 2000 \<and> isConnected (store d)
      then d\<lparr>isDead := True\<rparr>
      else d\<lparr>isDead := False\<rparr>)"

datatype dash_event = Socket ws_event | Interval int

definition dash_step :: "(string \<Rightarrow> jsval option) \<Rightarrow> dash_event \<Rightarrow> DashboardState \<Rightarrow> DashboardState" where
  "dash_step parse ev d =
     (case ev of
        Socket e \<Rightarrow> d\<lparr>store := handle_ws parse e (store d)\<rparr>
      | Interval now \<Rightarrow> deadman now d)"

definition dash_run :: "(string \<Rightarrow> jsval option) \<Rightarrow> DashboardState \<Rightarrow> dash_event list \<Rightarrow> DashboardState" where
  "dash_run parse d evs = foldl (\<lambda>d ev. dash_step parse ev d) d evs"

definition dash_is_update :: "(string \<Rightarrow> jsval option) \<Rightarrow> dash_event \<Rightarrow> bool" where
  "dash_is_update parse ev = (case ev of Socket e \<Rightarrow> is_update parse e | Interval now \<Rightarrow> False)"

subsection \<open>The printed probabilities\<close>

text \<open>
  The dashboard of the game store prints \<^verbatim>\<open>radiantWin\<close> and \<^verbatim>\<open>direWin\<close>, computed from
  a numeric \<^verbatim>\<open>winProbability\<close>.
\<close>

definition radiantWin :: "real \<Rightarrow> fixed" where
  "radiantWin winProb = toFixed1 (js_mul (Num winProb) (Num 100))"

definition direWin :: "real \<Rightarrow> fixed" where
  "direWin winProb = toFixed1 (js_sub (Num 100) (js_mul (Num winProb) (Num 100)))"

text \<open>
  The spectate page prints \<^verbatim>\<open>radiantProb\<close> and \<^verbatim>\<open>direProb\<close>, each times 100 with
  one decimal.
\<close>

definition spectate_radiant_text :: "real \<Rightarrow> fixed" where
  "spectate_radiant_text radiant = toFixed1 (js_mul (Num radiant) (Num 100))"

definition spectate_dire_text :: "real \<Rightarrow> fixed" where
  "spectate_dire_text radiant = toFixed1 (js_mul (direProb radiant) (Num 100))"

section \<open>Properties of the rounding\<close>

lemma pow2_pos: "0 < pow2 e"
  by (simp add: pow2_def)

lemma pow2_powr: "pow2 e = 2 powr (of_int e)"
proof (cases "0 \<le> e")
  case True
  then have "2 powr (of_int e) = (2::real) powr (real (nat e))" by simp
  also have "\<dots> = 2 ^ nat e" by (simp only: powr_realpow [of 2] zero_less_numeral)
  finally show ?thesis using True by (simp add: pow2_def)
next
  case False
  then have "2 powr (of_int e) = (2::real) powr (- real (nat (- e)))" by simp
  also have "\<dots> = 1 / 2 powr (real (nat (- e)))" by (simp only: powr_minus_divide)
  also have "\<dots> = 1 / 2 ^ nat (- e)" by (simp only: powr_realpow [of 2] zero_less_numeral)
  finally show ?thesis using False by (simp add: pow2_def)
qed

lemma pow2_mono: "a \<le> b \<Longrightarrow> pow2 a \<le> pow2 b"
  by (simp add: pow2_powr)

lemma pow2_add: "pow2 (a + b) = pow2 a * pow2 b"
  by (simp add: pow2_powr powr_add)

lemma binade_fuel_less:
  "0 < k \<Longrightarrow> x < 2 ^ k \<Longrightarrow> binade_fuel n x < int k"
proof (induction n arbitrary: x k)
  case 0
  then show ?case by simp
next
  case (Suc n)
  show ?case
  proof (cases "2 \<le> x")
    case True
    have k2: "2 \<le> k"
    proof (rule ccontr)
      assume "\<not> 2 \<le> k"
      with Suc.prems have "k = 1" by simp
      with Suc.prems True show False by simp
    qed
    then obtain j where j: "k = Suc j" "0 < j" by (cases k) auto
    from Suc.prems j have "x / 2 < 2 ^ j" by simp
    from Suc.IH [OF j(2) this] True j show ?thesis by simp
  next
    case False
    show ?thesis
    proof (cases "x < 1")
      case True
      have "(2::real) \<le> 2 ^ k" using Suc.prems(1)
        by (metis One_nat_def Suc_leI power_increasing power_one_right one_le_numeral)
      with True have "x * 2 < 2 ^ k" by linarith
      from Suc.IH [OF Suc.prems(1) this] True False show ?thesis by simp
    next
      case False
      with \<open>\<not> 2 \<le> x\<close> Suc.prems show ?thesis by simp
    qed
  qed
qed

lemma binade_small: "\<bar>x\<bar> < 128 \<Longrightarrow> binade x \<le> 6"
proof -
  assume "\<bar>x\<bar> < 128"
  then have "\<bar>x\<bar> < 2 ^ 7" by simp
  from binade_fuel_less [OF _ this, of 1100] show ?thesis by (simp add: binade_def)
qed

lemma binade_ge: "- 1022 \<le> binade x"
  by (simp add: binade_def)

lemma frac_bounds: "0 \<le> t - of_int \<lfloor>t\<rfloor> \<and> t - of_int \<lfloor>t\<rfloor> < (1::real)"
  by linarith

lemma round_half_even_near: "\<bar>of_int (round_half_even t) - t\<bar> \<le> 1 / 2"
proof -
  define d where "d = t - of_int \<lfloor>t\<rfloor>"
  have d: "0 \<le> d" "d < 1" using frac_bounds [of t] by (simp_all add: d_def)
  have t: "t = of_int \<lfloor>t\<rfloor> + d" by (simp add: d_def)
  consider "d < 1 / 2" | "d > 1 / 2" | "d = 1 / 2" by linarith
  then show ?thesis
  proof cases
    case 1
    then have "round_half_even t = \<lfloor>t\<rfloor>"
      by (simp add: round_half_even_def Let_def d_def)
    then show ?thesis using 1 d t by (simp add: abs_if)
  next
    case 2
    then have "round_half_even t = \<lfloor>t\<rfloor> + 1"
      by (simp add: round_half_even_def Let_def d_def)
    then show ?thesis using 2 d t by (simp add: abs_if)
  next
    case 3
    then have "round_half_even t = \<lfloor>t\<rfloor> \<or> round_half_even t = \<lfloor>t\<rfloor> + 1"
      by (simp add: round_half_even_def Let_def d_def)
    then show ?thesis using 3 t by (auto simp: abs_if)
  qed
qed

lemma round_half_even_nonneg: "0 \<le> t \<Longrightarrow> 0 \<le> round_half_even t"
proof -
  assume "0 \<le> t"
  then have "0 \<le> \<lfloor>t\<rfloor>" by simp
  then show ?thesis by (simp add: round_half_even_def Let_def)
qed

lemma round_half_even_le: "t \<le> of_int N \<Longrightarrow> round_half_even t \<le> N"
proof -
  assume le: "t \<le> of_int N"
  have f: "\<lfloor>t\<rfloor> \<le> N" using le by (simp add: floor_le_iff)
  show ?thesis
  proof (cases "\<lfloor>t\<rfloor> = N")
    case True
    then have "t - of_int \<lfloor>t\<rfloor> \<le> 0" using le by simp
    then show ?thesis using True by (simp add: round_half_even_def Let_def)
  next
    case False
    with f have "\<lfloor>t\<rfloor> + 1 \<le> N" by simp
    then show ?thesis using f by (simp add: round_half_even_def Let_def)
  qed
qed

lemma round64_near:
  assumes "\<bar>v\<bar> < 128"
  shows "\<exists>r. round64 v = Num r \<and> v - 1 / 1000000000000 \<le> r \<and> r \<le> v + 1 / 1000000000000 \<and>
           (0 \<le> v \<longrightarrow> 0 \<le> r)"
proof -
  define u where "u = pow2 (binade v - 52)"
  define r where "r = of_int (round_half_even (v / u)) * u"
  have upos: "0 < u" by (simp add: u_def pow2_pos)
  have "binade v - 52 \<le> - 46" using binade_small [OF assms] by simp
  from pow2_mono [OF this] have ule: "u \<le> 1 / 2 ^ 46" by (simp add: u_def pow2_def)
  have "\<bar>r - v\<bar> = \<bar>of_int (round_half_even (v / u)) - v / u\<bar> * u"
  proof -
    have "r - v = (of_int (round_half_even (v / u)) - v / u) * u"
      using upos by (simp add: r_def left_diff_distrib)
    then show ?thesis using upos by (simp add: abs_mult)
  qed
  also have "\<dots> \<le> 1 / 2 * u"
    using round_half_even_near [of "v / u"] upos by (intro mult_right_mono) simp_all
  also have "\<dots> \<le> 1 / 2 * (1 / 2 ^ 46)" using ule by simp
  also have "\<dots> \<le> 1 / 1000000000000" by simp
  finally have "\<bar>r - v\<bar> \<le> 1 / 1000000000000" .
  then have near: "v - 1 / 1000000000000 \<le> r" "r \<le> v + 1 / 1000000000000"
    by linarith+
  have "- 129 < r" "r < 129" using near assms by linarith+
  then have fin: "\<not> r \<ge> 2 ^ 1024" "\<not> r \<le> - (2 ^ 1024)" by simp_all
  have eq: "round64 v = Num r"
    using fin by (simp add: round64_def Let_def u_def [symmetric] r_def [symmetric])
  have "0 \<le> r" if "0 \<le> v"
    using that upos round_half_even_nonneg [of "v / u"] by (simp add: r_def)
  with eq near show ?thesis by blast
qed

lemma round64_le_100:
  assumes "0 \<le> v" "v \<le> 100" "round64 v = Num r"
  shows "r \<le> 100"
proof -
  define k where "k = binade v - 52"
  define u where "u = pow2 k"
  have upos: "0 < u" by (simp add: u_def pow2_pos)
  have "\<bar>v\<bar> < 128" using assms by simp
  from binade_small [OF this] have k: "k \<le> - 46" by (simp add: k_def)
  define N :: int where "N = 100 * 2 ^ nat (- k)"
  have "pow2 k * pow2 (- k) = 1" using pow2_add [of k "- k"] by (simp add: pow2_def)
  moreover have "pow2 (- k) = 2 ^ nat (- k)" using k by (simp add: pow2_def)
  ultimately have inv: "1 / u = 2 ^ nat (- k)" using upos by (simp add: u_def field_simps)
  have "v / u \<le> 100 / u" using assms upos by (simp add: divide_right_mono)
  also have "100 / u = of_int N" using inv by (simp add: N_def)
  finally have "round_half_even (v / u) \<le> N" by (rule round_half_even_le)
  then have "of_int (round_half_even (v / u)) * u \<le> of_int N * u"
    using upos by (simp add: mult_right_mono)
  also have "of_int N * u = 100" using \<open>100 / u = of_int N\<close> upos by (simp add: field_simps)
  finally have le: "of_int (round_half_even (v / u)) * u \<le> 100" .
  from assms(3) have "r = of_int (round_half_even (v / u)) * u"
    by (simp add: round64_def Let_def u_def k_def split: if_splits)
  with le show ?thesis by simp
qed

section \<open>Properties of the bounded history\<close>

lemma history_addPoint:
  "probabilityHistory (addPoint state p) =
     drop (Suc (length (probabilityHistory state)) - 60) (probabilityHistory state @ [p])"
  by (simp add: addPoint_def addProbabilityPoint_def MAX_HISTORY_POINTS_def
      slice_from_end_def Let_def)

lemma addPoint_frame:
  "connectionStatus (addPoint state p) = connectionStatus state \<and>
   gameState (addPoint state p) = gameState state \<and>
   currentPage (addPoint state p) = currentPage state"
  by (simp add: addPoint_def addProbabilityPoint_def Let_def)

lemma history_addPoints:
  "length (probabilityHistory state) \<le> 60 \<Longrightarrow>
   probabilityHistory (addPoints state ps) =
     drop (length (probabilityHistory state) + length ps - 60) (probabilityHistory state @ ps)"
proof (induction ps arbitrary: state)
  case Nil
  then show ?case by (simp add: addPoints_def)
next
  case (Cons p ps)
  let ?h = "probabilityHistory state"
  let ?h1 = "probabilityHistory (addPoint state p)"
  have h1: "?h1 = drop (Suc (length ?h) - 60) (?h @ [p])"
    by (rule history_addPoint)
  have len1: "length ?h1 \<le> 60"
    using Cons.prems by (simp add: h1)
  have step: "probabilityHistory (addPoints (addPoint state p) ps) =
      drop (length ?h1 + length ps - 60) (?h1 @ ps)"
    using Cons.IH [OF len1] .
  have "drop (length ?h1 + length ps - 60) (?h1 @ ps) =
      drop (length ?h + length (p # ps) - 60) (?h @ p # ps)"
  proof (cases "length ?h < 60")
    case True
    then have "?h1 = ?h @ [p]" by (simp add: h1)
    then show ?thesis by simp
  next
    case False
    then have l60: "length ?h = 60" using Cons.prems by simp
    then obtain x xs where hx: "?h = x # xs" and lxs: "length xs = 59"
      by (cases ?h) auto
    have e: "?h1 = xs @ [p]" by (simp add: h1 hx lxs)
    show ?thesis by (simp add: e hx lxs)
  qed
  with step show ?case by (simp add: addPoints_def)
qed

text \<open>
  C4. The probability history kept by the store is a bounded buffer with drop-oldest
  semantics: whatever sequence of points is appended to the initial store, the history
  holds at most 60 entries and is exactly the most recent 60 points (all of them when
  there are fewer), in arrival order; and appending to a history of 60 entries removes
  its oldest entry and nothing else.
\<close>

theorem history_bounded_drop_oldest:
  "length (probabilityHistory (addPoints initialAppState ps)) \<le> MAX_HISTORY_POINTS \<and>
   probabilityHistory (addPoints initialAppState ps) = drop (length ps - 60) ps \<and>
   (length (probabilityHistory state) = MAX_HISTORY_POINTS \<longrightarrow>
      probabilityHistory (addProbabilityPoint t m k state) =
        tl (probabilityHistory state) @ [\<lparr>time = t, model = m, market = k\<rparr>])"
proof -
  have init: "length (probabilityHistory initialAppState) \<le> 60"
    by (simp add: initialAppState_def)
  have a: "probabilityHistory (addPoints initialAppState ps) = drop (length ps - 60) ps"
    using history_addPoints [OF init, of ps] by (simp add: initialAppState_def)
  have b: "length (probabilityHistory (addPoints initialAppState ps)) \<le> MAX_HISTORY_POINTS"
    by (simp add: a MAX_HISTORY_POINTS_def)
  have c: "probabilityHistory (addProbabilityPoint t m k state) =
        tl (probabilityHistory state) @ [\<lparr>time = t, model = m, market = k\<rparr>]"
    if "length (probabilityHistory state) = MAX_HISTORY_POINTS"
  proof -
    from that obtain x xs where "probabilityHistory state = x # xs"
      by (cases "probabilityHistory state") (auto simp: MAX_HISTORY_POINTS_def)
    with that show ?thesis
      by (simp add: addProbabilityPoint_def MAX_HISTORY_POINTS_def slice_from_end_def Let_def)
  qed
  from a b c show ?thesis by blast
qed

theorem history_bounded_drop_oldest_witness:
  "length (probabilityHistory
      (initialAppState\<lparr>probabilityHistory := replicate 60 \<lparr>time = 0, model = 1 / 2, market = 1 / 2\<rparr>\<rparr>))
     = MAX_HISTORY_POINTS \<and>
   probabilityHistory (addProbabilityPoint 1 (3 / 5) (1 / 2)
      (initialAppState\<lparr>probabilityHistory := replicate 60 \<lparr>time = 0, model = 1 / 2, market = 1 / 2\<rparr>\<rparr>))
     = replicate 59 \<lparr>time = 0, model = 1 / 2, market = 1 / 2\<rparr> @
         [\<lparr>time = 1, model = 3 / 5, market = 1 / 2\<rparr>]"
  using history_bounded_drop_oldest
    [of "[]" "initialAppState\<lparr>probabilityHistory :=
            replicate 60 \<lparr>time = 0, model = 1 / 2, market = 1 / 2\<rparr>\<rparr>" 1 "3 / 5" "1 / 2"]
  by (simp add: MAX_HISTORY_POINTS_def)

section \<open>Properties of the mispricing gauge\<close>


lemma clampedValue_cases:
  "clampedValue m = (if m < - 1 then - 1 else if 1 < m then 1 else m)"
  by (simp add: clampedValue_def max_def min_def)


lemma abs_clampedValue_less:
  "c \<le> 1 \<Longrightarrow> (\<bar>clampedValue m\<bar> < c) = (\<bar>m\<bar> < c)"
  by (auto simp: clampedValue_def max_def min_def abs_if)

lemma clampedValue_nonneg: "(0 \<le> clampedValue m) = (0 \<le> m)"
  by (auto simp: clampedValue_def max_def min_def)

lemma getLabel_configured: "getLabel m = configured_label 0.05 0.2 m"
proof -
  have a: "(\<bar>clampedValue m\<bar> < 0.05) = (\<bar>m\<bar> < 0.05)"
    by (rule abs_clampedValue_less) simp
  have b: "(\<bar>clampedValue m\<bar> < 0.2) = (\<bar>m\<bar> < 0.2)"
    by (rule abs_clampedValue_less) simp
  have c: "(0.2 \<le> \<bar>clampedValue m\<bar>) = (0.2 \<le> \<bar>m\<bar>)"
    using b by linarith
  show ?thesis
    unfolding getLabel_def configured_label_def isPositive_def isHighlySignificant_def
      a c clampedValue_nonneg
    by (cases "0 \<le> m"; cases "0.2 \<le> \<bar>m\<bar>"; simp only: if_True if_False)
qed

text \<open>
  C1. For every mispricing index the gauge assigns the tier by the absolute value of the
  index: below 0.05 the label is Fairly Priced (SKIP); from 0.05 up to but excluding 0.20
  it is Undervalued or Overvalued (LEAN); from 0.20 on it is Strong Buy Signal or Strong
  Sell Signal (STRONG). The side is the sign of the index: the buy side labels for an
  index that is not negative, the sell side labels for a negative one. In particular
  0.03 is Fairly Priced, 0.12 is Undervalued, 0.25 is Strong Buy Signal and -0.30 is
  Strong Sell Signal.
\<close>

theorem gauge_tiering:
  "(\<bar>index\<bar> < 0.05 \<longrightarrow> getLabel index = ''Fairly Priced'') \<and>
   (0.05 \<le> \<bar>index\<bar> \<and> \<bar>index\<bar> < 0.20 \<longrightarrow>
      getLabel index = (if 0 \<le> index then ''Undervalued'' else ''Overvalued'')) \<and>
   (0.20 \<le> \<bar>index\<bar> \<longrightarrow>
      getLabel index = (if 0 \<le> index then ''Strong Buy Signal'' else ''Strong Sell Signal'')) \<and>
   getLabel 0.03 = ''Fairly Priced'' \<and>
   getLabel 0.12 = ''Undervalued'' \<and>
   getLabel 0.25 = ''Strong Buy Signal'' \<and>
   getLabel (- 0.30) = ''Strong Sell Signal''"
  by (simp add: getLabel_configured configured_label_def)

theorem gauge_tiering_witness:
  "\<bar>0.04 :: real\<bar> < 0.05 \<and> getLabel 0.04 = ''Fairly Priced'' \<and>
   0.05 \<le> \<bar>- 0.05 :: real\<bar> \<and> \<bar>- 0.05 :: real\<bar> < 0.20 \<and> getLabel (- 0.05) = ''Overvalued'' \<and>
   0.20 \<le> \<bar>0.20 :: real\<bar> \<and> getLabel 0.20 = ''Strong Buy Signal''"
  using gauge_tiering [of "0.04"] gauge_tiering [of "- 0.05"] gauge_tiering [of "0.20"]
  by simp







subsection \<open>The thresholds are literals of the code\<close>

lemma configured_only_defaults:
  assumes eq: "\<forall>index. getLabel index = configured_label skip strong index"
  shows "skip = 0.05 \<and> strong = 0.2"
proof -
  have e: "configured_label 0.05 0.2 x = configured_label skip strong x" for x
    using eq getLabel_configured [of x] by simp
  have s1: "\<not> skip < 0.05"
  proof
    assume lt: "skip < 0.05"
    define x where "x = (if skip \<le> 0 then 0 else skip)"
    have "\<bar>x\<bar> < 0.05" "\<not> \<bar>x\<bar> < skip" using lt by (auto simp: x_def)
    then show False using e [of x] by (simp add: configured_label_def split: if_splits)
  qed
  have s2: "\<not> 0.05 < skip"
  proof
    assume "0.05 < skip"
    then show False using e [of "0.05"] by (simp add: configured_label_def split: if_splits)
  qed
  have skip: "skip = 0.05" using s1 s2 by simp
  have t1: "\<not> strong < 0.2"
  proof
    assume lt: "strong < 0.2"
    define x where "x = max 0.05 strong"
    have "0.05 \<le> \<bar>x\<bar>" "\<bar>x\<bar> < 0.2" "strong \<le> \<bar>x\<bar>" "0 \<le> x" using lt by (auto simp: x_def)
    then show False using e [of x] by (simp add: configured_label_def skip split: if_splits)
  qed
  have t2: "\<not> 0.2 < strong"
  proof
    assume "0.2 < strong"
    then show False using e [of "0.2"] by (simp add: configured_label_def skip split: if_splits)
  qed
  show ?thesis using skip t1 t2 by simp
qed

lemma getBetSignal_boundaries:
  "(sig_text (getBetSignal r d) = ''CLOSE MATCH - SKIP'') =
      (Math_round (r * 100) < 55 \<and> Math_round (d * 100) < 55)"
  "sig_safe (getBetSignal r d) = (65 \<le> Math_round (r * 100) \<or> 65 \<le> Math_round (d * 100))"
  by (auto simp: getBetSignal_def Let_def)

lemma featured_getBetSignal_boundaries:
  "(fs_side (featured_getBetSignal r d) = ''none'') =
      (Math_round (r * 100) < 55 \<and> Math_round (d * 100) < 55)"
  "(fs_color (featured_getBetSignal r d) = ''emerald'') =
      (65 \<le> Math_round (r * 100) \<or> 65 \<le> Math_round (d * 100))"
  by (auto simp: featured_getBetSignal_def Let_def)

text \<open>
  C3, as the claim states it, fails: the signal functions take no thresholds. With
  thresholds configured as 0.10 (SKIP) and 0.30 (STRONG) the index 0.07 would be fairly
  priced; the gauge labels it Undervalued.
\<close>

theorem thresholds_configurable_counterexample:
  "getLabel 0.07 = ''Undervalued'' \<and> configured_label 0.10 0.30 0.07 = ''Fairly Priced''"
  by (simp add: getLabel_configured configured_label_def)

text \<open>
  C3, amended. The tiering thresholds are literals of the code, not parameters: the
  gauge tiers every index as the configurable tiering does exactly when the configured
  thresholds are 0.05 and 0.20, and for no other configuration; the bet signal of the
  match pages skips exactly when both rounded percentages are below 55 and signals a
  strong value exactly when one of them is at least 65.
\<close>

theorem thresholds_are_literals:
  "(\<forall>index. getLabel index = configured_label skip strong index) =
      (skip = 0.05 \<and> strong = 0.2) \<and>
   (sig_text (getBetSignal r d) = ''CLOSE MATCH - SKIP'') =
      (Math_round (r * 100) < 55 \<and> Math_round (d * 100) < 55) \<and>
   sig_safe (getBetSignal r d) = (65 \<le> Math_round (r * 100) \<or> 65 \<le> Math_round (d * 100)) \<and>
   (fs_side (featured_getBetSignal r d) = ''none'') =
      (Math_round (r * 100) < 55 \<and> Math_round (d * 100) < 55) \<and>
   (fs_color (featured_getBetSignal r d) = ''emerald'') =
      (65 \<le> Math_round (r * 100) \<or> 65 \<le> Math_round (d * 100))"
proof -
  have "(\<forall>index. getLabel index = configured_label skip strong index) =
      (skip = 0.05 \<and> strong = 0.2)"
  proof
    assume "\<forall>index. getLabel index = configured_label skip strong index"
    then show "skip = 0.05 \<and> strong = 0.2" by (rule configured_only_defaults)
  next
    assume "skip = 0.05 \<and> strong = 0.2"
    then have "skip = 0.05" and "strong = 0.2" by blast+
    then show "\<forall>index. getLabel index = configured_label skip strong index"
      by (simp only: getLabel_configured simp_thms)
  qed
  then show ?thesis
    using getBetSignal_boundaries [of r d] featured_getBetSignal_boundaries [of r d]
    by blast
qed

section \<open>Properties of the message handlers\<close>

lemma onmessage_returns: "\<exists>s'. onmessage parse now event_data s = Done s'"
  by (simp add: onmessage_def split: outcome.split)

lemma spectate_onmessage_returns: "\<exists>st'. spectate_onmessage parse event_data st = Done st'"
  by (simp add: spectate_onmessage_def split: outcome.split)

lemma onmessage_parse_failure:
  "parse event_data = None \<Longrightarrow> onmessage parse now event_data s = Done s"
  by (simp add: onmessage_def onmessage_try_def)

lemma spectate_onmessage_parse_failure:
  "parse event_data = None \<Longrightarrow> spectate_onmessage parse event_data st = Done st"
  by (simp add: spectate_onmessage_def spectate_onmessage_try_def)

lemma onmessage_not_update:
  "parse event_data = Some data \<Longrightarrow> get_prop data ''type'' \<noteq> Inr (JStr ''update'')
   \<Longrightarrow> onmessage parse now event_data s = Done s"
  by (auto simp: onmessage_def onmessage_try_def reading_def split: sum.splits)

lemma spectate_onmessage_not_update:
  "parse event_data = Some data \<Longrightarrow>
   get_prop data ''type'' \<noteq> Inr (JStr ''update'') \<or>
   get_prop data ''model_win_probability'' = Inr JUndefined
   \<Longrightarrow> spectate_onmessage parse event_data st = Done st"
  by (auto simp: spectate_onmessage_def spectate_onmessage_try_def reading_def split: sum.splits)

text \<open>
  C5. For every incoming message string and whatever \<^verbatim>\<open>JSON.parse\<close> does with it,
  both message handlers run to their end: no exception leaves them. When the string does
  not parse, the game store, and the state of the spectate page, are exactly what they
  were.
\<close>

theorem handlers_never_throw:
  "(\<exists>s'. onmessage parse now event_data s = Done s') \<and>
   (\<exists>st'. spectate_onmessage parse event_data st = Done st') \<and>
   (parse event_data = None \<longrightarrow>
      onmessage parse now event_data s = Done s \<and>
      spectate_onmessage parse event_data st = Done st)"
  using onmessage_returns [of parse now event_data s]
    spectate_onmessage_returns [of parse event_data st]
    onmessage_parse_failure [of parse event_data now s]
    spectate_onmessage_parse_failure [of parse event_data st]
  by blast

theorem handlers_never_throw_witness:
  "(\<lambda>x. None) ''not json'' = (None :: jsval option) \<and>
   onmessage (\<lambda>x. None) 5000 ''not json'' (useGameStore 0) = Done (useGameStore 0) \<and>
   spectate_onmessage (\<lambda>x. None) ''not json'' initialSpectateState = Done initialSpectateState"
  using handlers_never_throw [of "\<lambda>x. None" 5000 "''not json''" "useGameStore 0" initialSpectateState]
  by simp

text \<open>
  C8. A message that parses and whose \<^verbatim>\<open>type\<close> is not the string \<^verbatim>\<open>update\<close>
  leaves every field of the game store unchanged; in the spectate handler, a message
  that parses and whose \<^verbatim>\<open>type\<close> is not \<^verbatim>\<open>update\<close>, or whose
  \<^verbatim>\<open>model_win_probability\<close> is absent, leaves the application store and the
  displayed prediction unchanged.
\<close>

theorem only_update_mutates:
  "(parse event_data = Some data \<and> get_prop data ''type'' \<noteq> Inr (JStr ''update'') \<longrightarrow>
      onmessage parse now event_data s = Done s) \<and>
   (parse event_data = Some data \<and>
      (get_prop data ''type'' \<noteq> Inr (JStr ''update'') \<or>
       get_prop data ''model_win_probability'' = Inr JUndefined) \<longrightarrow>
      spectate_onmessage parse event_data st = Done st)"
  using onmessage_not_update [of parse event_data data now s]
    spectate_onmessage_not_update [of parse event_data data st]
  by blast

theorem only_update_mutates_witness:
  "onmessage (\<lambda>x. Some (JObj [(''type'', JStr ''ping''), (''win_probability'', JNum 0.9)]))
      5000 ''msg'' (useGameStore 0) = Done (useGameStore 0) \<and>
   spectate_onmessage (\<lambda>x. Some (JObj [(''type'', JStr ''update''), (''game_time'', JNum 30)]))
      ''msg'' initialSpectateState = Done initialSpectateState"
  using only_update_mutates [of "\<lambda>x. Some (JObj [(''type'', JStr ''ping''), (''win_probability'', JNum 0.9)])"
      "''msg''" "JObj [(''type'', JStr ''ping''), (''win_probability'', JNum 0.9)]" 5000 "useGameStore 0"]
    only_update_mutates [of "\<lambda>x. Some (JObj [(''type'', JStr ''update''), (''game_time'', JNum 30)])"
      "''msg''" "JObj [(''type'', JStr ''update''), (''game_time'', JNum 30)]" _ _ initialSpectateState]
  by (simp add: get_prop_def)

section \<open>Properties of the game store and the dashboard\<close>

lemma handle_ws_not_update:
  "\<not> is_update parse ev \<Longrightarrow>
   winProbability (handle_ws parse ev s) = winProbability s \<and>
   gameTime (handle_ws parse ev s) = gameTime s \<and>
   lastUpdate (handle_ws parse ev s) = lastUpdate s"
proof (cases ev)
  case (WsMessage event_data now)
  assume nu: "\<not> is_update parse ev"
  show ?thesis
  proof (cases "parse event_data")
    case None
    then show ?thesis
      by (simp add: WsMessage handle_ws_def onmessage_parse_failure)
  next
    case (Some data)
    with nu WsMessage have "get_prop data ''type'' \<noteq> Inr (JStr ''update'')"
      by (simp add: is_update_def)
    with Some show ?thesis
      by (simp add: WsMessage handle_ws_def onmessage_not_update)
  qed
qed (simp_all add: handle_ws_def onopen_def onclose_def setConnectionStatus_def)

lemma handle_ws_not_open:
  "ev \<noteq> WsOpen \<Longrightarrow> \<not> is_update parse ev \<Longrightarrow> \<not> isConnected s \<Longrightarrow>
   \<not> isConnected (handle_ws parse ev s)"
proof (cases ev)
  case (WsMessage event_data now)
  assume nu: "\<not> is_update parse ev" and nc: "\<not> isConnected s"
  show ?thesis
  proof (cases "parse event_data")
    case None
    then show ?thesis using nc
      by (simp add: WsMessage handle_ws_def onmessage_parse_failure)
  next
    case (Some data)
    with nu WsMessage have "get_prop data ''type'' \<noteq> Inr (JStr ''update'')"
      by (simp add: is_update_def)
    with Some show ?thesis using nc
      by (simp add: WsMessage handle_ws_def onmessage_not_update)
  qed
qed (simp_all add: handle_ws_def onopen_def onclose_def setConnectionStatus_def)

lemma run_ws_not_update:
  "\<forall>ev \<in> set evs. \<not> is_update parse ev \<Longrightarrow>
   winProbability (run_ws parse s evs) = winProbability s \<and>
   gameTime (run_ws parse s evs) = gameTime s \<and>
   lastUpdate (run_ws parse s evs) = lastUpdate s"
proof (induction evs arbitrary: s)
  case Nil
  then show ?case by (simp add: run_ws_def)
next
  case (Cons ev evs)
  then have "\<not> is_update parse ev" and rest: "\<forall>ev \<in> set evs. \<not> is_update parse ev"
    by simp_all
  from handle_ws_not_update [OF this(1), of s] Cons.IH [OF rest, of "handle_ws parse ev s"]
  show ?case by (simp add: run_ws_def)
qed

lemma run_ws_not_open:
  "\<forall>ev \<in> set evs. \<not> is_update parse ev \<Longrightarrow> WsOpen \<notin> set evs \<Longrightarrow> \<not> isConnected s \<Longrightarrow>
   \<not> isConnected (run_ws parse s evs)"
proof (induction evs arbitrary: s)
  case Nil
  then show ?case by (simp add: run_ws_def)
next
  case (Cons ev evs)
  then have a: "\<not> is_update parse ev" "ev \<noteq> WsOpen"
    and rest: "\<forall>ev \<in> set evs. \<not> is_update parse ev" "WsOpen \<notin> set evs"
    by auto
  from handle_ws_not_open [OF a(2) a(1) Cons.prems(3)]
  have "\<not> isConnected (handle_ws parse ev s)" .
  from Cons.IH [OF rest this] show ?case by (simp add: run_ws_def)
qed

text \<open>
  C9, amended. As long as no update message has been processed, whatever other events
  the socket delivers (opening, closing, errors, messages that do not parse or are not
  updates), the game store shows the win probability 0.5 and the game time 0, from its
  creation and again after \<^verbatim>\<open>reset()\<close>; the connection status is disconnected at
  creation and right after \<^verbatim>\<open>reset()\<close>, and stays disconnected as long as the
  socket has not opened. The spectate page shows 0.5 while it has no prediction.
\<close>

theorem defaults_before_first_update:
  "((\<forall>ev \<in> set evs. \<not> is_update parse ev) \<longrightarrow>
      winProbability (run_ws parse (useGameStore t0) evs) = JNum 0.5 \<and>
      gameTime (run_ws parse (useGameStore t0) evs) = JNum 0 \<and>
      (WsOpen \<notin> set evs \<longrightarrow> \<not> isConnected (run_ws parse (useGameStore t0) evs)) \<and>
      winProbability (run_ws parse (reset s) evs) = JNum 0.5 \<and>
      gameTime (run_ws parse (reset s) evs) = JNum 0 \<and>
      (WsOpen \<notin> set evs \<longrightarrow> \<not> isConnected (run_ws parse (reset s) evs))) \<and>
   winProbability (reset s) = JNum 0.5 \<and> gameTime (reset s) = JNum 0 \<and>
   \<not> isConnected (reset s) \<and>
   radiantProb (prediction initialSpectateState) = JNum 0.5"
proof -
  have r: "winProbability (reset s) = JNum 0.5 \<and> gameTime (reset s) = JNum 0 \<and>
      \<not> isConnected (reset s)"
    by (simp add: reset_def)
  have i: "winProbability (useGameStore t0) = JNum 0.5 \<and> gameTime (useGameStore t0) = JNum 0 \<and>
      \<not> isConnected (useGameStore t0)"
    by (simp add: useGameStore_def)
  have p: "radiantProb (prediction initialSpectateState) = JNum 0.5"
    by (simp add: radiantProb_def initialSpectateState_def opt_prop_def nullish_def)
  show ?thesis
    using r i p run_ws_not_update [of evs parse "useGameStore t0"]
      run_ws_not_update [of evs parse "reset s"]
      run_ws_not_open [of evs parse "useGameStore t0"]
      run_ws_not_open [of evs parse "reset s"]
    by (simp only:) blast
qed

theorem defaults_before_first_update_witness:
  "winProbability (run_ws (\<lambda>x. None) (useGameStore 0) [WsMessage ''not json'' 10, WsError, WsClose]) = JNum 0.5 \<and>
   gameTime (run_ws (\<lambda>x. None) (useGameStore 0) [WsMessage ''not json'' 10, WsError, WsClose]) = JNum 0 \<and>
   \<not> isConnected (run_ws (\<lambda>x. None) (useGameStore 0) [WsMessage ''not json'' 10, WsError, WsClose])"
  using defaults_before_first_update [of "[WsMessage ''not json'' 10, WsError, WsClose]" "\<lambda>x. None" 0]
  by (simp add: is_update_def)

text \<open>
  C9, as the claim states it, fails for the connection status: once the socket has
  opened the store is connected, also before any update message has been processed.
\<close>

theorem defaults_counterexample:
  "isConnected (run_ws (\<lambda>x. None) (useGameStore 0) [WsOpen]) \<and>
   winProbability (run_ws (\<lambda>x. None) (useGameStore 0) [WsOpen]) = JNum 0.5"
  by (simp add: run_ws_def handle_ws_def onopen_def setConnectionStatus_def useGameStore_def)

lemma dash_step_not_update:
  "\<not> dash_is_update parse ev \<Longrightarrow>
   winProbability (store (dash_step parse ev d)) = winProbability (store d) \<and>
   gameTime (store (dash_step parse ev d)) = gameTime (store d)"
proof (cases ev)
  case (Socket e)
  assume "\<not> dash_is_update parse ev"
  with Socket have "\<not> is_update parse e" by (simp add: dash_is_update_def)
  from handle_ws_not_update [OF this, of "store d"] show ?thesis
    by (simp add: Socket dash_step_def)
next
  case (Interval now)
  then show ?thesis by (simp add: dash_step_def deadman_def)
qed

lemma dash_run_not_update:
  "\<forall>ev \<in> set evs. \<not> dash_is_update parse ev \<Longrightarrow>
   winProbability (store (dash_run parse d evs)) = winProbability (store d) \<and>
   gameTime (store (dash_run parse d evs)) = gameTime (store d)"
proof (induction evs arbitrary: d)
  case Nil
  then show ?case by (simp add: dash_run_def)
next
  case (Cons ev evs)
  then have "\<not> dash_is_update parse ev" and rest: "\<forall>ev \<in> set evs. \<not> dash_is_update parse ev"
    by simp_all
  from dash_step_not_update [OF this(1), of d] Cons.IH [OF rest, of "dash_step parse ev d"]
  show ?case by (simp add: dash_run_def)
qed

lemma deadman_exact:
  "isDead (deadman now d) = (2000 < now - lastUpdate (store d) \<and> isConnected (store d)) \<and>
   store (deadman now d) = store d"
  by (simp add: deadman_def)

lemma update_stored:
  "parse event_data = Some data \<Longrightarrow> get_prop data ''type'' = Inr (JStr ''update'') \<Longrightarrow>
   store (dash_step parse (Socket (WsMessage event_data now)) d) =
     (store d)\<lparr>winProbability := own_prop data ''win_probability'',
               gameTime := own_prop data ''timestamp'', lastUpdate := now\<rparr>"
  by (auto simp: dash_step_def handle_ws_def onmessage_def onmessage_try_def reading_def
      get_prop_def setWinProbability_def setGameTime_def updateLastTimestamp_def Let_def
      split: if_splits)

text \<open>
  C6. The code breaks the claim on an update message that carries no fields. The socket
  opens; the update \<^verbatim>\<open>{"type":"update","win_probability":0.75,"timestamp":120}\<close> arrives
  at 1000 ms; the interval check runs at 1500 ms: the store holds 0.75 and 120. Then the
  update \<^verbatim>\<open>{"type":"update"}\<close> arrives at 2000 ms and the check runs again at 2500
  ms. The store is then connected and fresh, so the NO DATA flag is off, and the win
  probability and the game time it holds are \<^verbatim>\<open>undefined\<close>: the last good values
  are gone.
\<close>

theorem update_without_fields_erases_snapshot:
  \<open>let parse = (\<lambda>s.
         if s = ''{"type":"update","win_probability":0.75,"timestamp":120}''
           then Some (JObj [(''type'', JStr ''update''), (''win_probability'', JNum (3 / 4)),
                            (''timestamp'', JNum 120)])
         else if s = ''{"type":"update"}''
           then Some (JObj [(''type'', JStr ''update'')])
         else None);
       good = dash_run parse \<lparr>store = useGameStore 0, isDead = False\<rparr>
             [Socket WsOpen,
              Socket (WsMessage ''{"type":"update","win_probability":0.75,"timestamp":120}'' 1000),
              Interval 1500];
       d = dash_run parse good
             [Socket (WsMessage ''{"type":"update"}'' 2000),
              Interval 2500]
   in winProbability (store good) = JNum (3 / 4) \<and> gameTime (store good) = JNum 120 \<and>
      winProbability (store d) = JUndefined \<and> gameTime (store d) = JUndefined \<and>
      isConnected (store d) \<and> lastUpdate (store d) = 2000 \<and> \<not> isDead d\<close>
  by (simp add: dash_run_def dash_step_def handle_ws_def onopen_def onmessage_def
      onmessage_try_def reading_def get_prop_def setConnectionStatus_def setWinProbability_def
      setGameTime_def updateLastTimestamp_def useGameStore_def deadman_def Let_def)

section \<open>Properties of the displayed probabilities\<close>

lemma toFixed1_small:
  "0 \<le> x \<Longrightarrow> x < 129 \<Longrightarrow> toFixed1 (Num x) = Fixed False \<lfloor>x * 10 + 1 / 2\<rfloor>"
  by simp

lemma tenths_sum:
  fixes x y :: real
  assumes "100 - 1 / 100 \<le> x + y" "x + y \<le> 100 + 1 / 100"
  shows "999 \<le> \<lfloor>x * 10 + 1 / 2\<rfloor> + \<lfloor>y * 10 + 1 / 2\<rfloor> \<and>
         \<lfloor>x * 10 + 1 / 2\<rfloor> + \<lfloor>y * 10 + 1 / 2\<rfloor> \<le> 1001"
proof -
  let ?a = "\<lfloor>x * 10 + 1 / 2\<rfloor>" and ?b = "\<lfloor>y * 10 + 1 / 2\<rfloor>"
  have a: "of_int ?a \<le> x * 10 + 1 / 2" "x * 10 + 1 / 2 < of_int ?a + 1" by linarith+
  have b: "of_int ?b \<le> y * 10 + 1 / 2" "y * 10 + 1 / 2 < of_int ?b + 1" by linarith+
  have "of_int ?a + of_int ?b < (1002::real)" using a b assms by linarith
  then have "of_int (?a + ?b) < (1002::real)" by simp
  then have u: "?a + ?b < 1002" by simp
  have "(998::real) < of_int ?a + of_int ?b" using a b assms by linarith
  then have "(998::real) < of_int (?a + ?b)" by simp
  then have l: "998 < ?a + ?b" by simp
  from u l show ?thesis by linarith
qed

lemma dashboard_pair:
  assumes "0 \<le> p" "p \<le> 1"
  shows "\<exists>a b. radiantWin p = Fixed False a \<and> direWin p = Fixed False b \<and>
           999 \<le> a + b \<and> a + b \<le> 1001"
proof -
  have "\<bar>p * 100\<bar> < 128" using assms by simp
  from round64_near [OF this] obtain x where
    x: "round64 (p * 100) = Num x" "0 \<le> x"
    using assms by auto
  have x100: "x \<le> 100" using assms by (intro round64_le_100 [OF _ _ x(1)]) simp_all
  have "\<bar>100 - x\<bar> < 128" using x(2) x100 by simp
  from round64_near [OF this] obtain y where
    y: "round64 (100 - x) = Num y" "100 - x - 1 / 1000000000000 \<le> y"
      "y \<le> 100 - x + 1 / 1000000000000" "0 \<le> y"
    using x100 by auto
  have ysmall: "y < 129" using y(3) x(2) by linarith
  have r: "radiantWin p = Fixed False \<lfloor>x * 10 + 1 / 2\<rfloor>"
    unfolding radiantWin_def js_mul.simps x(1) using x(2) x100 by (intro toFixed1_small) simp_all
  have d: "direWin p = Fixed False \<lfloor>y * 10 + 1 / 2\<rfloor>"
    unfolding direWin_def js_mul.simps x(1) js_sub.simps y(1)
    using y(4) ysmall by (rule toFixed1_small)
  have "100 - 1 / 100 \<le> x + y" "x + y \<le> 100 + 1 / 100" using y(2,3) by linarith+
  from tenths_sum [OF this] r d show ?thesis by blast
qed

lemma spectate_pair:
  assumes "0 \<le> p" "p \<le> 1"
  shows "\<exists>a b. spectate_radiant_text p = Fixed False a \<and> spectate_dire_text p = Fixed False b \<and>
           999 \<le> a + b \<and> a + b \<le> 1001"
proof -
  have "\<bar>p * 100\<bar> < 128" using assms by simp
  from round64_near [OF this] obtain x where
    x: "round64 (p * 100) = Num x" "p * 100 - 1 / 1000000000000 \<le> x"
      "x \<le> p * 100 + 1 / 1000000000000" "0 \<le> x"
    using assms by auto
  have xs: "x < 129" using x(3) assms by linarith
  have "\<bar>1 - p\<bar> < 128" using assms by simp
  from round64_near [OF this] obtain d where
    d: "round64 (1 - p) = Num d" "1 - p - 1 / 1000000000000 \<le> d"
      "d \<le> 1 - p + 1 / 1000000000000" "0 \<le> d"
    using assms by auto
  have "\<bar>d * 100\<bar> < 128" using d(3,4) assms by simp
  from round64_near [OF this] obtain y where
    y: "round64 (d * 100) = Num y" "d * 100 - 1 / 1000000000000 \<le> y"
      "y \<le> d * 100 + 1 / 1000000000000" "0 \<le> y"
    using d(4) by auto
  have ys: "y < 129" using y(3) d(3) assms by linarith
  have r: "spectate_radiant_text p = Fixed False \<lfloor>x * 10 + 1 / 2\<rfloor>"
    unfolding spectate_radiant_text_def js_mul.simps x(1) using x(4) xs by (rule toFixed1_small)
  have t: "spectate_dire_text p = Fixed False \<lfloor>y * 10 + 1 / 2\<rfloor>"
    unfolding spectate_dire_text_def direProb_def js_sub.simps d(1) js_mul.simps y(1)
    using y(4) ys by (rule toFixed1_small)
  have "100 - 1 / 100 \<le> x + y" "x + y \<le> 100 + 1 / 100"
    using x(2,3) y(2,3) d(2,3) by linarith+
  from tenths_sum [OF this] r t show ?thesis by blast
qed

text \<open>
  The two sums other than 100.0 both occur, and the two pages can print different Dire
  percentages for the same probability. The first number below is the binary64 number
  nearest to 0.0015, the second the one nearest to 0.0045.
\<close>

lemma displayed_sum_below:
  "radiantWin (3458764513820541 / 2305843009213693952) = Fixed False 1 \<and>
   direWin (3458764513820541 / 2305843009213693952) = Fixed False 998"
  by (simp add: radiantWin_def direWin_def round64_def binade_def eval_nat_numeral pow2_def
      round_half_even_def Let_def)

lemma pages_differ:
  "direWin (5188146770730811 / 1152921504606846976) = Fixed False 995 \<and>
   spectate_dire_text (5188146770730811 / 1152921504606846976) = Fixed False 996"
  by (simp add: direWin_def spectate_dire_text_def direProb_def round64_def binade_def
      eval_nat_numeral pow2_def round_half_even_def Let_def)

text \<open>
  C10, amended. The Dire probability is computed from the Radiant one by complement in
  floating point: the spectate page takes \<open>1 - p\<close>, rounded once, and the dashboard
  formats \<open>100 - 100 p\<close>. Each side is printed as a percentage with one decimal of its
  own, so for a probability between 0 and 1 the two printed numbers of either page add
  up to 99.9, 100.0 or 100.1, and not always to 100.0.
\<close>

theorem displayed_probabilities:
  "(0 \<le> p \<and> p \<le> 1 \<longrightarrow>
      (\<exists>a b. radiantWin p = Fixed False a \<and> direWin p = Fixed False b \<and>
         999 \<le> a + b \<and> a + b \<le> 1001) \<and>
      (\<exists>a b. spectate_radiant_text p = Fixed False a \<and> spectate_dire_text p = Fixed False b \<and>
         999 \<le> a + b \<and> a + b \<le> 1001) \<and>
      (\<exists>d. direProb p = Num d \<and> 1 - p - 1 / 1000000000000 \<le> d \<and>
         d \<le> 1 - p + 1 / 1000000000000)) \<and>
   (map_of kvs ''model_win_probability'' = Some (JNum p) \<longrightarrow>
      radiantProb (JObj kvs) = JNum p)"
proof -
  have c: "\<exists>d. direProb p = Num d \<and> 1 - p - 1 / 1000000000000 \<le> d \<and>
         d \<le> 1 - p + 1 / 1000000000000"
    if "0 \<le> p" "p \<le> 1"
  proof -
    have "\<bar>1 - p\<bar> < 128" using that by simp
    from round64_near [OF this] show ?thesis by (auto simp: direProb_def)
  qed
  have m: "radiantProb (JObj kvs) = JNum p"
    if "map_of kvs ''model_win_probability'' = Some (JNum p)"
    using that by (simp add: radiantProb_def opt_prop_def nullish_def)
  from c m dashboard_pair [of p] spectate_pair [of p] show ?thesis by blast
qed

theorem displayed_probabilities_witness:
  "(0::real) \<le> 3 / 4 \<and> (3 / 4 :: real) \<le> 1 \<and>
   radiantProb (JObj [(''type'', JStr ''update''), (''model_win_probability'', JNum (3 / 4))])
     = JNum (3 / 4) \<and>
   radiantWin (3 / 4) = Fixed False 750 \<and> direWin (3 / 4) = Fixed False 250 \<and>
   spectate_radiant_text (3 / 4) = Fixed False 750 \<and>
   spectate_dire_text (3 / 4) = Fixed False 250 \<and>
   direProb (3 / 4) = Num (1 / 4)"
  using displayed_probabilities [of "3 / 4"
      "[(''type'', JStr ''update''), (''model_win_probability'', JNum (3 / 4))]"]
  by (simp add: radiantWin_def direWin_def spectate_radiant_text_def spectate_dire_text_def
      direProb_def radiantProb_def opt_prop_def nullish_def
      round64_def binade_def eval_nat_numeral pow2_def round_half_even_def Let_def)

text \<open>
  C10, as the claim states it, fails for the rendered numbers: for the win probability
  1/16 the dashboard prints 6.3 for Radiant and 93.8 for Dire, and so does the spectate
  page.
\<close>

theorem displayed_complement_counterexample:
  "radiantWin (1 / 16) = Fixed False 63 \<and> direWin (1 / 16) = Fixed False 938 \<and>
   spectate_radiant_text (1 / 16) = Fixed False 63 \<and>
   spectate_dire_text (1 / 16) = Fixed False 938"
  by (simp add: radiantWin_def direWin_def spectate_radiant_text_def spectate_dire_text_def
      direProb_def round64_def binade_def eval_nat_numeral pow2_def round_half_even_def Let_def)

end
